theory Spec2Isabelle
  imports Complex_Main "HOL-Library.Char_ord" "HOL-Library.List_Lexorder"
begin

section \<open>The paginated content view-model (FileSystemLogic.ts)\<close>

subsection \<open>Data\<close>

text \<open>
  JavaScript numbers that hold identifiers, counts and cursors are modelled as \<open>int\<close>
  (exact for the integers the list logic works with). A thrown value is an \<open>exn\<close>;
  \<open>null\<close> in the \<open>error\<close> field of a loading state is \<open>None\<close>.
\<close>

type_synonym exn = string

datatype SelectMode = Search | Id'

record ContentStructure =
  id' :: int
  name :: string

record ContentSelectStructure = ContentStructure +
  selected :: bool

record LoadingState =
  loading :: bool
  error :: "exn option"

text \<open>
  \<open>Partial<LoadingState>\<close>: each field may be absent. \<open>{ loading: true }\<close> is
  \<open>\<lparr>p_loading = Some True, p_error = None\<rparr>\<close>, and
  \<open>{ loading: false, error: null }\<close> is
  \<open>\<lparr>p_loading = Some False, p_error = Some None\<rparr>\<close>.
\<close>

record PartialLoadingState =
  p_loading :: "bool option"
  p_error :: "exn option option"

text \<open>The object spread \<open>{ ...old, ...upd }\<close> of the three \<open>change*State\<close> methods.\<close>

definition spread :: "LoadingState \<Rightarrow> PartialLoadingState \<Rightarrow> LoadingState" where
  "spread old upd =
     \<lparr>loading = (case p_loading upd of None \<Rightarrow> loading old | Some l \<Rightarrow> l),
      error = (case p_error upd of None \<Rightarrow> error old | Some e \<Rightarrow> e)\<rparr>"

text \<open>
  The type \<open>Sort\<close> is imported from a module outside the sources; the code reads it as
  an object from field names to the numbers 1 and -1 (\<open>'name' in this.sort\<close>,
  \<open>this.sort[sorting] === 1\<close>), so it is an association list here.
\<close>

type_synonym Sort = "(string \<times> int) list"

text \<open>
  The response of \<open>requestContentData\<close>. The code tests \<open>response.data\<close> for
  truthiness, so the field is optional here (an array, even an empty one, is truthy).
\<close>

record Request =
  data :: "ContentStructure list option"
  next_id :: int
  total_count :: int

text \<open>
  The fields of the class. The \<open>props\<close> field (external data that only a subclass
  reads) is left out: no method of the base class reads or writes it after the constructor.
\<close>

record FileSystemLogic =
  content :: "ContentSelectStructure list"
  totalCount :: int
  nextId :: int
  sort' :: Sort
  state :: LoadingState
  paginationState :: LoadingState
  actionState :: LoadingState
  selectedAll :: bool
  removedElements :: "ContentSelectStructure list option"

subsection \<open>Selection getters\<close>

definition getAllSelectedIds :: "FileSystemLogic \<Rightarrow> int list" where
  "getAllSelectedIds s = map id' (filter (\<lambda>item. selected item) (content s))"

definition getAllUnselectedIds :: "FileSystemLogic \<Rightarrow> int list" where
  "getAllUnselectedIds s = map id' (filter (\<lambda>item. \<not> selected item) (content s))"

definition getSelectedIds :: "FileSystemLogic \<Rightarrow> int list" where
  "getSelectedIds s = (if selectedAll s then getAllUnselectedIds s else getAllSelectedIds s)"

definition isSelectAll :: "FileSystemLogic \<Rightarrow> bool" where
  "isSelectAll s =
     (let isAllSelected = (length (content s) > 0 \<and> list_all (\<lambda>item. selected item) (content s))
      in (selectedAll s \<and> isAllSelected)
         \<or> (totalCount s \<le> int (length (content s)) \<and> isAllSelected))"

definition selectedCount :: "FileSystemLogic \<Rightarrow> int" where
  "selectedCount s =
     (if selectedAll s
      then totalCount s - int (length (filter (\<lambda>item. \<not> selected item) (content s)))
      else if length (content s) > 0
           then int (length (filter (\<lambda>item. selected item) (content s)))
           else 0)"

text \<open>An optional argument \<open>id?: number\<close> is an \<open>int option\<close>; \<open>undefined\<close> is \<open>None\<close>.\<close>

definition getSelected :: "int option \<Rightarrow> FileSystemLogic \<Rightarrow> int list" where
  "getSelected oid s = (case oid of Some i \<Rightarrow> [i] | None \<Rightarrow> getSelectedIds s)"

subsection \<open>Setters\<close>

definition setContent :: "ContentSelectStructure list \<Rightarrow> FileSystemLogic \<Rightarrow> FileSystemLogic" where
  "setContent c s = s\<lparr>content := c\<rparr>"

definition updateContent :: "ContentSelectStructure list \<Rightarrow> FileSystemLogic \<Rightarrow> FileSystemLogic" where
  "updateContent c s = s\<lparr>content := content s @ c\<rparr>"

definition setTotalCount :: "int \<Rightarrow> FileSystemLogic \<Rightarrow> FileSystemLogic" where
  "setTotalCount n s = s\<lparr>totalCount := n\<rparr>"

definition setNextId :: "int \<Rightarrow> FileSystemLogic \<Rightarrow> FileSystemLogic" where
  "setNextId n s = s\<lparr>nextId := n\<rparr>"

definition setRemovedElement :: "ContentSelectStructure list option \<Rightarrow> FileSystemLogic \<Rightarrow> FileSystemLogic" where
  "setRemovedElement element s = s\<lparr>removedElements := element\<rparr>"

definition setSelectedAll :: "bool \<Rightarrow> FileSystemLogic \<Rightarrow> FileSystemLogic" where
  "setSelectedAll sel s = s\<lparr>selectedAll := sel\<rparr>"

definition toggleSelectAll :: "bool \<Rightarrow> FileSystemLogic \<Rightarrow> FileSystemLogic" where
  "toggleSelectAll sel s = s\<lparr>content := map (\<lambda>item. item\<lparr>selected := sel\<rparr>) (content s)\<rparr>"

definition toggleSelectedAll :: "bool \<Rightarrow> FileSystemLogic \<Rightarrow> FileSystemLogic" where
  "toggleSelectedAll select s = toggleSelectAll select (setSelectedAll select s)"

definition changeState :: "PartialLoadingState \<Rightarrow> FileSystemLogic \<Rightarrow> FileSystemLogic" where
  "changeState upd s = s\<lparr>state := spread (state s) upd\<rparr>"

definition changePaginationState :: "PartialLoadingState \<Rightarrow> FileSystemLogic \<Rightarrow> FileSystemLogic" where
  "changePaginationState upd s = s\<lparr>paginationState := spread (paginationState s) upd\<rparr>"

definition changeActionState :: "PartialLoadingState \<Rightarrow> FileSystemLogic \<Rightarrow> FileSystemLogic" where
  "changeActionState upd s = s\<lparr>actionState := spread (actionState s) upd\<rparr>"

definition resetActionState :: "FileSystemLogic \<Rightarrow> FileSystemLogic" where
  "resetActionState s = changeActionState \<lparr>p_loading = Some False, p_error = Some None\<rparr> s"

text \<open>The three updates the code passes to the \<open>change*State\<close> methods.\<close>

definition started :: PartialLoadingState where
  "started = \<lparr>p_loading = Some True, p_error = None\<rparr>"

definition succeeded :: PartialLoadingState where
  "succeeded = \<lparr>p_loading = Some False, p_error = Some None\<rparr>"

definition failed :: "exn \<Rightarrow> PartialLoadingState" where
  "failed e = \<lparr>p_loading = Some False, p_error = Some (Some e)\<rparr>"

definition convert :: "ContentStructure list \<Rightarrow> FileSystemLogic \<Rightarrow> ContentSelectStructure list" where
  "convert c s = map (\<lambda>item. \<lparr>id' = id' item, name = name item, selected = selectedAll s\<rparr>) c"

text \<open>\<open>Array.prototype.findIndex\<close>: the first index whose element passes, -1 (\<open>None\<close>) if none.\<close>

fun findIndex :: "('a \<Rightarrow> bool) \<Rightarrow> 'a list \<Rightarrow> nat option" where
  "findIndex p [] = None"
| "findIndex p (x # xs) =
     (if p x then Some 0 else (case findIndex p xs of None \<Rightarrow> None | Some i \<Rightarrow> Some (Suc i)))"

definition renameContent :: "int \<Rightarrow> string \<Rightarrow> FileSystemLogic \<Rightarrow> FileSystemLogic" where
  "renameContent i nm s =
     (case findIndex (\<lambda>item. id' item = i) (content s) of
        None \<Rightarrow> s
      | Some index \<Rightarrow> s\<lparr>content := (content s)[index := (content s ! index)\<lparr>name := nm\<rparr>]\<rparr>)"

definition onToggleSelected :: "int \<Rightarrow> bool \<Rightarrow> FileSystemLogic \<Rightarrow> FileSystemLogic" where
  "onToggleSelected i sel s =
     (case findIndex (\<lambda>item. id' item = i) (content s) of
        None \<Rightarrow> s
      | Some index \<Rightarrow> s\<lparr>content := (content s)[index := (content s ! index)\<lparr>selected := sel\<rparr>]\<rparr>)"

subsection \<open>Sorting\<close>

text \<open>
  \<open>String.prototype.toLowerCase\<close> on the ASCII letters (case mapping of other
  characters is not modelled). Strings compare as JavaScript compares them, by code
  unit, which is the lexicographic order of \<open>char list\<close>.
\<close>

definition toLowerCase :: "string \<Rightarrow> string" where
  "toLowerCase str =
     map (\<lambda>c. let n = (of_char c :: nat) in if 65 \<le> n \<and> n \<le> 90 then char_of (n + 32) else c) str"

text \<open>
  \<open>[...content].sort(cmp)\<close> is a stable sort. With the comparator \<open>asc\<close> it is the
  stable insertion sort by key; with \<open>desc\<close> the keys descend and equal keys keep
  their order, which is the reverse of the stable ascending sort of the reversed list.
\<close>

definition sortWith :: "bool \<Rightarrow> ('a \<Rightarrow> 'k::linorder) \<Rightarrow> 'a list \<Rightarrow> 'a list" where
  "sortWith ascending key xs = (if ascending then sort_key key xs else rev (sort_key key (rev xs)))"

datatype Field = FieldId | FieldName | FieldSelected

definition sortContent ::
  "ContentSelectStructure list \<Rightarrow> Field \<Rightarrow> string \<Rightarrow> FileSystemLogic \<Rightarrow> ContentSelectStructure list" where
  "sortContent c field sorting s =
     (let ascending = (map_of (sort' s) sorting = Some 1) in
      case field of
        FieldId \<Rightarrow> sortWith ascending (\<lambda>item. id' item) c
      | FieldName \<Rightarrow> sortWith ascending (\<lambda>item. toLowerCase (name item)) c
      | FieldSelected \<Rightarrow> sortWith ascending (\<lambda>item. selected item) c)"

subsection \<open>The abstract request methods\<close>

text \<open>
  The four abstract methods are supplied by a subclass. Each is a parameter of the
  model: a function of the view-model's state at the call and of the arguments, which
  returns what the awaited promise settles to, \<open>Inl e\<close> when it rejects with \<open>e\<close> and
  \<open>Inr v\<close> when it resolves with \<open>v\<close>. A request does not itself write the fields of
  the view-model. Every call of an abstract method is recorded as a \<open>Call\<close>, in order.
\<close>

record Requests =
  requestContentData :: "FileSystemLogic \<Rightarrow> exn + Request"
  requestContentMove :: "FileSystemLogic \<Rightarrow> int list \<Rightarrow> SelectMode \<Rightarrow> int \<Rightarrow> exn + unit"
  requestContentRemove :: "FileSystemLogic \<Rightarrow> int list \<Rightarrow> SelectMode \<Rightarrow> exn + unit"
  requestContentRename :: "FileSystemLogic \<Rightarrow> int \<Rightarrow> string \<Rightarrow> exn + unit"

datatype Call =
  ContentData
| ContentMove "int list" SelectMode int
| ContentRemove "int list" SelectMode
| ContentRename int string

subsection \<open>Fetching content\<close>

text \<open>
  An async method runs synchronously up to its \<open>await\<close> and resumes when the awaited
  promise settles. \<open>paginationRequest\<close> is therefore two steps: the part before the
  \<open>await\<close>, which sets the loading flag and issues the request, and the part after it,
  which runs on the outcome of the request. Awaited by its caller, the method is the
  two steps one after the other.
\<close>

definition paginationRequest_issue ::
  "Requests \<Rightarrow> FileSystemLogic \<Rightarrow> FileSystemLogic \<times> (exn + Request)" where
  "paginationRequest_issue env s =
     (let s1 = changePaginationState started s in (s1, requestContentData env s1))"

definition paginationRequest_resume :: "exn + Request \<Rightarrow> FileSystemLogic \<Rightarrow> FileSystemLogic" where
  "paginationRequest_resume outcome s =
     (case outcome of
        Inr response \<Rightarrow>
          (let s1 = (case data response of
                       Some d \<Rightarrow>
                         (let s2 = setNextId (next_id response) s
                          in updateContent (convert d s2) s2)
                     | None \<Rightarrow> s)
           in changePaginationState succeeded s1)
      | Inl e \<Rightarrow> changePaginationState (failed e) s)"

definition paginationRequest :: "Requests \<Rightarrow> FileSystemLogic \<Rightarrow> Call list \<times> FileSystemLogic" where
  "paginationRequest env s =
     (let (s1, outcome) = paginationRequest_issue env s
      in ([ContentData], paginationRequest_resume outcome s1))"

text \<open>
  \<open>pagination\<close> called without \<open>await\<close> (as \<open>removeContent\<close> calls it): the caller
  goes on with the state after the synchronous part, and the outcome of the request that
  is in flight, if one was issued, is handed on for \<open>paginationRequest_resume\<close>.
\<close>

definition pagination_unawaited ::
  "Requests \<Rightarrow> FileSystemLogic \<Rightarrow> Call list \<times> FileSystemLogic \<times> (exn + Request) option" where
  "pagination_unawaited env s =
     (if nextId s > 0 \<and> totalCount s > nextId s
      then (let (s1, outcome) = paginationRequest_issue env s in ([ContentData], s1, Some outcome))
      else ([], s, None))"

definition pagination :: "Requests \<Rightarrow> FileSystemLogic \<Rightarrow> Call list \<times> FileSystemLogic" where
  "pagination env s =
     (if nextId s > 0 \<and> totalCount s > nextId s then paginationRequest env s else ([], s))"

definition contentRequest :: "Requests \<Rightarrow> FileSystemLogic \<Rightarrow> Call list \<times> FileSystemLogic" where
  "contentRequest env s =
     (let s1 = changeState started s in
      case requestContentData env s1 of
        Inr response \<Rightarrow>
          (let s2 = (case data response of
                       Some d \<Rightarrow>
                         (let s3 = setNextId (next_id response) (setTotalCount (total_count response) s1)
                          in setContent (convert d s3) s3)
                     | None \<Rightarrow> s1)
           in ([ContentData], changeState succeeded s2))
      | Inl e \<Rightarrow> ([ContentData], changeState (failed e) s1))"

definition init :: "Requests \<Rightarrow> FileSystemLogic \<Rightarrow> Call list \<times> FileSystemLogic" where
  "init env s = contentRequest env s"

definition onChangeSort :: "Requests \<Rightarrow> Sort \<Rightarrow> FileSystemLogic \<Rightarrow> Call list \<times> FileSystemLogic" where
  "onChangeSort env srt s = contentRequest env (setNextId 0 (s\<lparr>sort' := srt\<rparr>))"

text \<open>The field values the constructor assigns, before it calls \<open>init\<close>.\<close>

definition constructed :: "Sort option \<Rightarrow> FileSystemLogic" where
  "constructed srt =
     \<lparr>content = [], totalCount = 0, nextId = 0,
      sort' = (case srt of Some x \<Rightarrow> x | None \<Rightarrow> [(''name'', -1)]),
      state = \<lparr>loading = False, error = None\<rparr>,
      paginationState = \<lparr>loading = False, error = None\<rparr>,
      actionState = \<lparr>loading = False, error = None\<rparr>,
      selectedAll = False, removedElements = None\<rparr>"

subsection \<open>Rename\<close>

text \<open>\<open>xs.slice(-1)\<close> is the list of the last element, empty for an empty list;
  \<open>xs.slice(0, -1)\<close> is \<open>butlast xs\<close>.\<close>

definition slice_last :: "'a list \<Rightarrow> 'a list" where
  "slice_last xs = (if xs = [] then [] else [last xs])"

definition rename :: "Requests \<Rightarrow> int \<Rightarrow> string \<Rightarrow> FileSystemLogic \<Rightarrow> Call list \<times> FileSystemLogic" where
  "rename env i nm s =
     (let s1 = changeActionState started s in
      case requestContentRename env s1 i nm of
        Inr _ \<Rightarrow>
          (let s2 = renameContent i nm s1;
               s3 = (if ''name'' \<in> fst ` set (sort' s2)
                     then (let newContent = sortContent (content s2) FieldName ''name'' s2;
                               lastElement = slice_last newContent
                           in if length newContent > 1 \<and> id' (hd lastElement) = i
                                 \<and> totalCount s2 > nextId s2
                              then (let s4 = setRemovedElement (Some lastElement)
                                               (setContent (butlast newContent) s2)
                                    in setNextId (nextId s4 - 1) s4)
                              else s2)
                     else s2)
           in ([ContentRename i nm], changeActionState succeeded s3))
      | Inl e \<Rightarrow> ([ContentRename i nm], changeActionState (failed e) s1))"

subsection \<open>Remove and move\<close>

text \<open>
  \<open>removeContent\<close>. The test \<open>id ? [id] : ...\<close> is on the truthiness of \<open>id\<close>, so
  both \<open>undefined\<close> and 0 take the second branch. \<open>this.pagination()\<close> is not awaited:
  its continuation runs after \<open>removeContent\<close> and its caller have finished, so the third
  component of the result is the outcome of the request in flight, if any.
\<close>

definition removeContent ::
  "Requests \<Rightarrow> int option \<Rightarrow> FileSystemLogic \<Rightarrow> Call list \<times> FileSystemLogic \<times> (exn + Request) option" where
  "removeContent env oid s =
     (if oid \<noteq> None \<or> \<not> selectedAll s
      then (let ids = (case oid of
                         Some i \<Rightarrow> if i \<noteq> 0 then [i] else getAllSelectedIds s
                       | None \<Rightarrow> getAllSelectedIds s);
                removed = filter (\<lambda>entity. id' entity \<in> set ids) (content s);
                result = filter (\<lambda>entity. id' entity \<notin> set ids) (content s);
                s1 = setTotalCount (totalCount s - int (length ids)) s;
                s2 = (if length removed > 0 then setRemovedElement (Some removed) s1 else s1);
                (calls, s3, pending) = pagination_unawaited env s2
            in (calls, toggleSelectAll False (setSelectedAll False (setContent result s3)), pending))
      else (let result = filter (\<lambda>item. id' item \<in> set (getAllUnselectedIds s)) (content s);
                s1 = setTotalCount (int (length result)) s
            in ([], toggleSelectAll False (setSelectedAll False (setContent result s1)), None)))"

text \<open>
  \<open>remove\<close> and \<open>move\<close> return the calls made, the state when their promise resolves,
  and the outcome of the pagination request that \<open>removeContent\<close> left in flight.
\<close>

definition remove' ::
  "Requests \<Rightarrow> int option \<Rightarrow> FileSystemLogic \<Rightarrow> Call list \<times> FileSystemLogic \<times> (exn + Request) option" where
  "remove' env oid s =
     (let ids = getSelected oid s in
      if selectedAll s \<or> length ids > 0
      then (let s1 = changeActionState started s;
                mode = (if selectedAll s1 then Search else Id')
            in case requestContentRemove env s1 ids mode of
                 Inr _ \<Rightarrow>
                   (let (calls, s2, pending) = removeContent env oid s1
                    in (ContentRemove ids mode # calls, changeActionState succeeded s2, pending))
               | Inl e \<Rightarrow> ([ContentRemove ids mode], changeActionState (failed e) s1, None))
      else ([], s, None))"

definition move ::
  "Requests \<Rightarrow> int \<Rightarrow> int option \<Rightarrow> FileSystemLogic \<Rightarrow> Call list \<times> FileSystemLogic \<times> (exn + Request) option" where
  "move env toDir oid s =
     (let ids = getSelected oid s in
      if selectedAll s \<or> length ids > 0
      then (let s1 = changeActionState started s;
                mode = (if selectedAll s1 then Search else Id')
            in case requestContentMove env s1 ids mode toDir of
                 Inr _ \<Rightarrow>
                   (let (calls, s2, pending) = removeContent env oid s1
                    in (ContentMove ids mode toDir # calls, changeActionState succeeded s2, pending))
               | Inl e \<Rightarrow> ([ContentMove ids mode toDir], changeActionState (failed e) s1, None))
      else ([], s, None))"


subsection \<open>The exposed operations\<close>

text \<open>
  The five operations of the view-model, and the calls of abstract request methods one
  invocation makes. \<open>onToggleSelected\<close> is a synchronous method that contains no call of
  a request method.
\<close>

datatype Operation =
  Rename int string
| Remove "int option"
| Move int "int option"
| ChangeSort Sort
| ToggleSelected int bool

fun requests_of :: "Requests \<Rightarrow> Operation \<Rightarrow> FileSystemLogic \<Rightarrow> Call list" where
  "requests_of env (Rename i nm) s = fst (rename env i nm s)"
| "requests_of env (Remove oid) s = fst (remove' env oid s)"
| "requests_of env (Move toDir oid) s = fst (move env toDir oid s)"
| "requests_of env (ChangeSort srt) s = fst (onChangeSort env srt s)"
| "requests_of env (ToggleSelected i sel) s = []"

section \<open>The generic list component (JenericComponent)\<close>




section \<open>The factory registry (Factory.tsx)\<close>

text \<open>
  \<open>ValidateParam\<close> is an object with a \<open>type\<close> tag and further fields; the
  destructuring \<open>const { type, ...params } = data\<close> splits it into the tag and the
  rest, which are the two fields here. In the same way \<open>const { data, ...methods } = props\<close>
  splits the props into \<open>data\<close> and the change methods, which the code hands on as
  they are; \<open>'m\<close> is the type of that rest object, \<open>'e\<close> the type of rendered elements.
  The field-type tags (\<open>ParamsType\<close>) are strings.
\<close>

record 'p ValidateParam =
  type' :: string
  params :: 'p

record ('p, 'm) ComponentProps =
  props_data :: "'p ValidateParam"
  props_methods :: 'm

record ('p, 'm) FactoryProps =
  create_data :: 'p
  create_methods :: 'm

record ('p, 'm, 'e) Factory =
  factory_type :: string
  create :: "('p, 'm) FactoryProps \<Rightarrow> 'e"

text \<open>\<open>registerFactories\<close>: \<open>forEach\<close> over the arguments, each assignment
  \<open>this.factories[factory.type] = factory\<close> replacing an earlier entry of the same tag.\<close>

fun registerFactories ::
  "('p, 'm, 'e) Factory list \<Rightarrow> (string \<rightharpoonup> ('p, 'm, 'e) Factory) \<Rightarrow> (string \<rightharpoonup> ('p, 'm, 'e) Factory)" where
  "registerFactories [] factories = factories"
| "registerFactories (factory # rest) factories =
     registerFactories rest (factories(factory_type factory \<mapsto> factory))"

text \<open>
  The constructor starts from the empty table and registers its factories. The twelve
  factory classes it instantiates are outside the sources, so the list is a parameter.
\<close>

definition CompoFactory :: "('p, 'm, 'e) Factory list \<Rightarrow> (string \<rightharpoonup> ('p, 'm, 'e) Factory)" where
  "CompoFactory registered = registerFactories registered Map.empty"

text \<open>\<open>component\<close>: the optional chaining \<open>?.create(...)\<close> gives \<open>undefined\<close>
  (\<open>None\<close>) when the table has no entry for the tag.\<close>

definition component ::
  "(string \<rightharpoonup> ('p, 'm, 'e) Factory) \<Rightarrow> ('p, 'm) ComponentProps \<Rightarrow> 'e option" where
  "component factories props =
     (let d = props_data props; methods = props_methods props;
          t = type' d; ps = params d;
          createProps = \<lparr>create_data = ps, create_methods = methods\<rparr>
      in case factories t of
           None \<Rightarrow> None
         | Some factory \<Rightarrow> Some (create factory createProps))"

section \<open>Example inputs\<close>

text \<open>A loaded list of three items with the first one selected, ten items in total on
  the server and the cursor at 3; a response with one further item; a subclass whose
  requests all resolve, and one whose requests all reject.\<close>

definition example_state :: FileSystemLogic where
  "example_state =
     (constructed None)
       \<lparr>content := [\<lparr>id' = 1, name = ''b'', selected = True\<rparr>,
                    \<lparr>id' = 2, name = ''A'', selected = False\<rparr>,
                    \<lparr>id' = 3, name = ''c'', selected = False\<rparr>],
        totalCount := 10, nextId := 3\<rparr>"

definition example_response :: Request where
  "example_response = \<lparr>data = Some [\<lparr>id' = 7, name = ''g''\<rparr>], next_id = 5, total_count = 9\<rparr>"

definition example_requests :: Requests where
  "example_requests =
     \<lparr>requestContentData = (\<lambda>s. Inr example_response),
      requestContentMove = (\<lambda>s ids mode toDir. Inr ()),
      requestContentRemove = (\<lambda>s ids mode. Inr ()),
      requestContentRename = (\<lambda>s i nm. Inr ())\<rparr>"

definition failing_requests :: Requests where
  "failing_requests =
     \<lparr>requestContentData = (\<lambda>s. Inl ''offline''),
      requestContentMove = (\<lambda>s ids mode toDir. Inl ''offline''),
      requestContentRemove = (\<lambda>s ids mode. Inl ''offline''),
      requestContentRename = (\<lambda>s i nm. Inl ''offline'')\<rparr>"

definition text_factory :: "(string, string, string) Factory" where
  "text_factory = \<lparr>factory_type = ''text'', create = (\<lambda>p. ''old text '' @ create_data p)\<rparr>"

definition link_factory :: "(string, string, string) Factory" where
  "link_factory = \<lparr>factory_type = ''link'', create = (\<lambda>p. ''link '' @ create_data p)\<rparr>"

definition text_factory2 :: "(string, string, string) Factory" where
  "text_factory2 =
     \<lparr>factory_type = ''text'', create = (\<lambda>p. ''text '' @ create_data p @ '' '' @ create_methods p)\<rparr>"

definition example_props :: "(string, string) ComponentProps" where
  "example_props =
     \<lparr>props_data = \<lparr>type' = ''text'', params = ''hello''\<rparr>, props_methods = ''methods''\<rparr>"



section \<open>Properties of the view-model\<close>

lemmas setters =
  setContent_def updateContent_def setTotalCount_def setNextId_def setRemovedElement_def
  setSelectedAll_def toggleSelectAll_def changeState_def changePaginationState_def
  changeActionState_def spread_def started_def succeeded_def failed_def

lemmas selection_getters =
  getSelected_def getSelectedIds_def getAllSelectedIds_def getAllUnselectedIds_def

lemmas examples =
  example_state_def example_response_def example_requests_def failing_requests_def
  constructed_def

subsection \<open>Selection\<close>

text \<open>
  C2. In every state the selected count agrees with the select-all flag: with the flag
  set it is \<open>totalCount\<close> minus the number of loaded items whose \<open>selected\<close> flag is
  false; with the flag not set it is the number of loaded items whose \<open>selected\<close> flag is
  true, which is zero for an empty list.
\<close>

theorem selectedCount_consistent:
  "(selectedAll s \<longrightarrow>
      selectedCount s = totalCount s - int (length (filter (\<lambda>item. \<not> selected item) (content s))))
   \<and> (\<not> selectedAll s \<longrightarrow>
      selectedCount s = int (length (filter (\<lambda>item. selected item) (content s))))
   \<and> (\<not> selectedAll s \<and> content s = [] \<longrightarrow> selectedCount s = 0)"
  by (simp add: selectedCount_def)

theorem selectedCount_consistent_witness:
  "\<not> selectedAll example_state \<and> selectedCount example_state = 1
   \<and> selectedAll (example_state\<lparr>selectedAll := True\<rparr>)
   \<and> selectedCount (example_state\<lparr>selectedAll := True\<rparr>) = 8
   \<and> content (constructed None) = [] \<and> selectedCount (constructed None) = 0"
  using selectedCount_consistent [of example_state]
    selectedCount_consistent [of "example_state\<lparr>selectedAll := True\<rparr>"]
    selectedCount_consistent [of "constructed None"]
  by (simp add: examples)

text \<open>
  C3. The select-all flag is kept apart from the per-item flags, so that a bulk operation
  can name the exceptions: in every state \<open>getSelectedIds\<close> returns the ids of the loaded
  items whose \<open>selected\<close> flag is false when the select-all flag is set, and the ids of the
  loaded items whose flag is true when it is not. Toggling an item leaves the select-all
  flag as it is, and setting the flag leaves the items as they are.
\<close>

theorem getSelectedIds_inverse:
  "getSelectedIds s =
     (if selectedAll s
      then map id' (filter (\<lambda>item. \<not> selected item) (content s))
      else map id' (filter (\<lambda>item. selected item) (content s)))
   \<and> selectedAll (onToggleSelected i sel s) = selectedAll s
   \<and> content (setSelectedAll sel s) = content s"
  by (simp add: selection_getters onToggleSelected_def setSelectedAll_def split: option.splits)

theorem getSelectedIds_inverse_witness:
  "getSelectedIds example_state = [1]
   \<and> getSelectedIds (setSelectedAll True example_state) = [2, 3]
   \<and> getSelectedIds (onToggleSelected 2 True example_state) = [1, 2]"
  using getSelectedIds_inverse [of example_state 2 True]
    getSelectedIds_inverse [of "setSelectedAll True example_state" 2 True]
    getSelectedIds_inverse [of "onToggleSelected 2 True example_state" 2 True]
  by (simp add: examples setSelectedAll_def onToggleSelected_def)

text \<open>
  C7. In every state a call of \<open>pagination\<close> issues the content-data request if and only
  if the stored cursor \<open>nextId\<close> is greater than 0 and \<open>totalCount\<close> is greater than
  \<open>nextId\<close>; otherwise the call makes no request and leaves the whole state as it was.
\<close>

theorem pagination_guard:
  "(ContentData \<in> set (fst (pagination env s)) \<longleftrightarrow> nextId s > 0 \<and> totalCount s > nextId s)
   \<and> (\<not> (nextId s > 0 \<and> totalCount s > nextId s) \<longrightarrow> pagination env s = ([], s))"
  by (simp add: pagination_def paginationRequest_def split: prod.splits)

theorem pagination_guard_witness:
  "nextId example_state > 0 \<and> totalCount example_state > nextId example_state
   \<and> ContentData \<in> set (fst (pagination example_requests example_state))
   \<and> \<not> nextId (constructed None) > 0
   \<and> pagination example_requests (constructed None) = ([], constructed None)"
  using pagination_guard [of example_requests example_state]
    pagination_guard [of example_requests "constructed None"]
  by (simp add: examples)

text \<open>
  C6. The pagination cursor comes from the server: when the initial content request or a
  pagination request resolves with a response whose \<open>data\<close> field is not null, the
  stored cursor \<open>nextId\<close> afterwards is the \<open>next_id\<close> field of that response. The
  third part is the same fact for the continuation of a pagination request that was left
  in flight, whatever the state it resumes in.
\<close>

theorem cursor_server_supplied:
  "(requestContentData env (changeState started s) = Inr response \<and> data response \<noteq> None
      \<longrightarrow> nextId (snd (contentRequest env s)) = next_id response)
   \<and> (requestContentData env (changePaginationState started s) = Inr response
        \<and> data response \<noteq> None
      \<longrightarrow> nextId (snd (paginationRequest env s)) = next_id response)
   \<and> (data response \<noteq> None
      \<longrightarrow> nextId (paginationRequest_resume (Inr response) s) = next_id response)"
  by (auto simp: contentRequest_def paginationRequest_def paginationRequest_issue_def
      paginationRequest_resume_def Let_def setters)

theorem cursor_server_supplied_witness:
  "requestContentData example_requests (changeState started example_state) = Inr example_response
   \<and> requestContentData example_requests (changePaginationState started example_state)
       = Inr example_response
   \<and> data example_response \<noteq> None
   \<and> next_id example_response = 5
   \<and> nextId (snd (contentRequest example_requests example_state)) = 5
   \<and> nextId (snd (paginationRequest example_requests example_state)) = 5
   \<and> nextId (paginationRequest_resume (Inr example_response) example_state) = 5"
  using cursor_server_supplied [of example_requests example_state example_response]
  by (simp add: example_requests_def example_response_def)

subsection \<open>Remove and move\<close>

text \<open>
  C4. When \<open>remove\<close> or \<open>move\<close> calls its abstract request (the select-all flag is set
  or some id is selected) and the request throws \<open>e\<close>, the list state is untouched:
  \<open>content\<close> with every item's \<open>selected\<close> flag, \<open>totalCount\<close>, \<open>nextId\<close> and the
  select-all flag are as before, the action loading state ends as
  \<open>{loading: false, error: e}\<close>, and no pagination request is left in flight.
\<close>

theorem failed_request_atomic:
  assumes "selectedAll s \<or> getSelected oid s \<noteq> []"
  shows "(requestContentRemove env (changeActionState started s) (getSelected oid s)
            (if selectedAll s then Search else Id') = Inl e
          \<longrightarrow> (let s' = fst (snd (remove' env oid s))
               in content s' = content s \<and> totalCount s' = totalCount s \<and> nextId s' = nextId s
                  \<and> selectedAll s' = selectedAll s
                  \<and> actionState s' = \<lparr>loading = False, error = Some e\<rparr>
                  \<and> s' = s\<lparr>actionState := \<lparr>loading = False, error = Some e\<rparr>\<rparr>
                  \<and> snd (snd (remove' env oid s)) = None))
       \<and> (requestContentMove env (changeActionState started s) (getSelected oid s)
            (if selectedAll s then Search else Id') toDir = Inl e
          \<longrightarrow> (let s' = fst (snd (move env toDir oid s))
               in content s' = content s \<and> totalCount s' = totalCount s \<and> nextId s' = nextId s
                  \<and> selectedAll s' = selectedAll s
                  \<and> actionState s' = \<lparr>loading = False, error = Some e\<rparr>
                  \<and> s' = s\<lparr>actionState := \<lparr>loading = False, error = Some e\<rparr>\<rparr>
                  \<and> snd (snd (move env toDir oid s)) = None))"
  using assms by (auto simp: remove'_def move_def Let_def setters)

theorem failed_request_atomic_witness:
  "getSelected None example_state = [1]
   \<and> requestContentRemove failing_requests (changeActionState started example_state) [1] Id'
       = Inl ''offline''
   \<and> requestContentMove failing_requests (changeActionState started example_state) [1] Id' 4
       = Inl ''offline''
   \<and> fst (snd (remove' failing_requests None example_state))
       = example_state\<lparr>actionState := \<lparr>loading = False, error = Some ''offline''\<rparr>\<rparr>
   \<and> fst (snd (move failing_requests 4 None example_state))
       = example_state\<lparr>actionState := \<lparr>loading = False, error = Some ''offline''\<rparr>\<rparr>"
proof -
  have sel: "getSelected None example_state = [1]" "\<not> selectedAll example_state"
    by (simp_all add: selection_getters examples)
  have guard: "selectedAll example_state \<or> getSelected None example_state \<noteq> []"
    using sel by simp
  show ?thesis
    using sel failed_request_atomic [OF guard, of failing_requests "''offline''" 4]
    by (simp add: failing_requests_def Let_def)
qed





subsection \<open>Requests made by the operations\<close>

text \<open>
  C1, as stated, fails: the claim that every invocation of each of the five operations
  calls at least one abstract request method is false for toggle-select, which makes no
  call, and for a \<open>remove\<close> with nothing selected, which the guard
  \<open>this.selectedAll || ids.length > 0\<close> ends before any call.
\<close>

theorem every_operation_requests_counterexample:
  "requests_of example_requests (ToggleSelected 1 True) example_state = []
   \<and> requests_of example_requests (Remove None) (constructed None) = []"
  by (simp add: remove'_def selection_getters constructed_def)

text \<open>
  C1, amended. \<open>rename\<close> and change-sort call an abstract request method on every
  invocation (\<open>requestContentRename\<close> and \<open>requestContentData\<close>). \<open>remove\<close> and
  \<open>move\<close> call one exactly when the select-all flag is set or the list of selected ids
  is not empty, and then call \<open>requestContentRemove\<close> or \<open>requestContentMove\<close> first.
  Toggle-select is a synchronous update of one item and calls none.
\<close>

theorem operations_requests:
  "requests_of env (Rename i nm) s = [ContentRename i nm]
   \<and> requests_of env (ChangeSort srt) s = [ContentData]
   \<and> (requests_of env (Remove oid) s \<noteq> [] \<longleftrightarrow> selectedAll s \<or> getSelected oid s \<noteq> [])
   \<and> (selectedAll s \<or> getSelected oid s \<noteq> [] \<longrightarrow>
        hd (requests_of env (Remove oid) s)
          = ContentRemove (getSelected oid s) (if selectedAll s then Search else Id'))
   \<and> (requests_of env (Move toDir oid) s \<noteq> [] \<longleftrightarrow> selectedAll s \<or> getSelected oid s \<noteq> [])
   \<and> (selectedAll s \<or> getSelected oid s \<noteq> [] \<longrightarrow>
        hd (requests_of env (Move toDir oid) s)
          = ContentMove (getSelected oid s) (if selectedAll s then Search else Id') toDir)
   \<and> requests_of env (ToggleSelected i sel) s = []"
proof -
  have rn: "requests_of env (Rename i nm) s = [ContentRename i nm]"
    by (simp add: rename_def Let_def split: sum.splits)
  have cs: "requests_of env (ChangeSort srt) s = [ContentData]"
    by (simp add: onChangeSort_def contentRequest_def Let_def split: sum.splits)
  have rm: "requests_of env (Remove oid) s \<noteq> [] \<longleftrightarrow> selectedAll s \<or> getSelected oid s \<noteq> []"
    by (auto simp: remove'_def Let_def changeActionState_def split: sum.splits prod.splits)
  have rm1: "selectedAll s \<or> getSelected oid s \<noteq> [] \<longrightarrow>
        hd (requests_of env (Remove oid) s)
          = ContentRemove (getSelected oid s) (if selectedAll s then Search else Id')"
    by (auto simp: remove'_def Let_def changeActionState_def split: sum.splits prod.splits)
  have mv: "requests_of env (Move toDir oid) s \<noteq> [] \<longleftrightarrow> selectedAll s \<or> getSelected oid s \<noteq> []"
    by (auto simp: move_def Let_def changeActionState_def split: sum.splits prod.splits)
  have mv1: "selectedAll s \<or> getSelected oid s \<noteq> [] \<longrightarrow>
        hd (requests_of env (Move toDir oid) s)
          = ContentMove (getSelected oid s) (if selectedAll s then Search else Id') toDir"
    by (auto simp: move_def Let_def changeActionState_def split: sum.splits prod.splits)
  have tg: "requests_of env (ToggleSelected i sel) s = []"
    by simp
  from rn cs rm rm1 mv mv1 tg show ?thesis by blast
qed

theorem operations_requests_witness:
  "requests_of example_requests (Rename 2 ''z'') example_state = [ContentRename 2 ''z'']
   \<and> requests_of example_requests (ChangeSort [(''name'', 1)]) example_state = [ContentData]
   \<and> getSelected None example_state = [1]
   \<and> requests_of example_requests (Remove None) example_state \<noteq> []
   \<and> hd (requests_of example_requests (Remove None) example_state) = ContentRemove [1] Id'
   \<and> requests_of example_requests (Move 4 None) example_state \<noteq> []
   \<and> hd (requests_of example_requests (Move 4 None) example_state) = ContentMove [1] Id' 4
   \<and> requests_of example_requests (ToggleSelected 2 True) example_state = []"
proof -
  have sel: "getSelected None example_state = [1]" "\<not> selectedAll example_state"
    by (simp_all add: selection_getters examples)
  from operations_requests
         [of example_requests 2 "''z''" example_state "[(''name'', 1)]" None 4 True] sel
  show ?thesis by auto
qed

subsection \<open>The three loading states\<close>

text \<open>
  C5, as stated, fails for \<open>remove\<close> (and \<open>move\<close>): after a successful request
  \<open>removeContent\<close> calls \<open>this.pagination()\<close> to refill the list, and when the cursor
  allows it that call sets the pagination loading flag. In the example one selected item
  of three is removed with ten items on the server and the cursor at 3.
\<close>

theorem only_action_state_written_counterexample:
  "paginationState (fst (snd (remove' example_requests None example_state)))
     \<noteq> paginationState example_state"
  by (simp add: remove'_def removeContent_def pagination_unawaited_def
      paginationRequest_issue_def Let_def setters selection_getters examples)

lemma removeContent_frame:
  "removeContent env oid s = (calls, s', pending) \<Longrightarrow>
     state s' = state s \<and> actionState s' = actionState s
     \<and> (ContentData \<notin> set calls \<longrightarrow> paginationState s' = paginationState s)"
  by (auto simp: removeContent_def pagination_unawaited_def paginationRequest_issue_def Let_def
      setters split: if_splits prod.splits)

lemma renameContent_frame:
  "state (renameContent i nm s) = state s
   \<and> paginationState (renameContent i nm s) = paginationState s"
  by (simp add: renameContent_def split: option.splits)

text \<open>
  C5, amended. Of the three loading states, \<open>rename\<close> writes only the action state.
  \<open>remove\<close> and \<open>move\<close> never write the initial state, and write the pagination state
  only when \<open>removeContent\<close>'s call of \<open>pagination\<close> issues a content-data request. A
  pagination request writes only the pagination state, and the initial content request
  writes only the initial state.
\<close>

theorem loading_states_frame:
  "(let s' = snd (rename env i nm s)
    in state s' = state s \<and> paginationState s' = paginationState s)
   \<and> (let r = remove' env oid s; s' = fst (snd r)
      in state s' = state s
         \<and> (ContentData \<notin> set (fst r) \<longrightarrow> paginationState s' = paginationState s))
   \<and> (let r = move env toDir oid s; s' = fst (snd r)
      in state s' = state s
         \<and> (ContentData \<notin> set (fst r) \<longrightarrow> paginationState s' = paginationState s))
   \<and> (let s' = snd (paginationRequest env s)
      in state s' = state s \<and> actionState s' = actionState s)
   \<and> (let s' = snd (contentRequest env s)
      in paginationState s' = paginationState s \<and> actionState s' = actionState s)"
proof -
  have rn: "let s' = snd (rename env i nm s)
    in state s' = state s \<and> paginationState s' = paginationState s"
    by (auto simp: rename_def Let_def setters renameContent_frame split: sum.splits)
  obtain calls s1 pending
    where rc: "removeContent env oid (changeActionState started s) = (calls, s1, pending)"
    by (cases "removeContent env oid (changeActionState started s)") auto
  note fr = removeContent_frame [OF rc]
  have rm: "let r = remove' env oid s; s' = fst (snd r)
      in state s' = state s
         \<and> (ContentData \<notin> set (fst r) \<longrightarrow> paginationState s' = paginationState s)"
    using rc fr by (auto simp: remove'_def Let_def changeActionState_def split: sum.splits)
  have mv: "let r = move env toDir oid s; s' = fst (snd r)
      in state s' = state s
         \<and> (ContentData \<notin> set (fst r) \<longrightarrow> paginationState s' = paginationState s)"
    using rc fr by (auto simp: move_def Let_def changeActionState_def split: sum.splits)
  have pg: "let s' = snd (paginationRequest env s)
      in state s' = state s \<and> actionState s' = actionState s"
    by (auto simp: paginationRequest_def paginationRequest_issue_def paginationRequest_resume_def
        Let_def setters split: sum.splits option.splits)
  have cr: "let s' = snd (contentRequest env s)
      in paginationState s' = paginationState s \<and> actionState s' = actionState s"
    by (auto simp: contentRequest_def Let_def setters split: sum.splits option.splits)
  from rn rm mv pg cr show ?thesis by blast
qed

theorem loading_states_frame_witness:
  "state (snd (rename example_requests 2 ''z'' example_state)) = state example_state
   \<and> paginationState (snd (rename example_requests 2 ''z'' example_state))
       = paginationState example_state
   \<and> state (fst (snd (remove' example_requests None example_state))) = state example_state
   \<and> ContentData \<notin> set (fst (remove' failing_requests None example_state))
   \<and> paginationState (fst (snd (remove' failing_requests None example_state)))
       = paginationState example_state
   \<and> ContentData \<notin> set (fst (move failing_requests 4 None example_state))
   \<and> paginationState (fst (snd (move failing_requests 4 None example_state)))
       = paginationState example_state
   \<and> actionState (snd (paginationRequest example_requests example_state))
       = actionState example_state
   \<and> actionState (snd (contentRequest example_requests example_state))
       = actionState example_state"
proof -
  have no_refill:
    "ContentData \<notin> set (fst (remove' failing_requests None example_state))"
    "ContentData \<notin> set (fst (move failing_requests 4 None example_state))"
    by (simp_all add: remove'_def move_def Let_def setters selection_getters examples)
  from loading_states_frame [of example_requests 2 "''z''" example_state None 4]
    loading_states_frame [of failing_requests 2 "''z''" example_state None 4] no_refill
  show ?thesis by (simp add: Let_def)
qed

section \<open>Properties of the generic list component\<close>



section \<open>Properties of the factory registry\<close>

lemma registerFactories_later:
  "\<forall>g \<in> set post. factory_type g \<noteq> t \<Longrightarrow> registerFactories post m t = m t"
  by (induction post arbitrary: m) auto

lemma registerFactories_append:
  "registerFactories (pre @ post) m = registerFactories post (registerFactories pre m)"
  by (induction pre arbitrary: m) auto

text \<open>
  C8. The registry is a dispatch table on the field-type tag. For a factory \<open>f\<close> among
  those the constructor registers, with no factory of the same tag registered after it
  (the last one of a tag wins), \<open>component\<close> on props whose data carries that tag returns
  the result of \<open>f\<close>'s \<open>create\<close> on the data without its \<open>type\<close> field together with
  the change methods as they were passed.
\<close>

theorem component_dispatch:
  assumes "registered = pre @ f # post"
    and "\<forall>g \<in> set post. factory_type g \<noteq> factory_type f"
    and "type' (props_data props) = factory_type f"
  shows "component (CompoFactory registered) props =
           Some (create f \<lparr>create_data = params (props_data props),
                           create_methods = props_methods props\<rparr>)"
proof -
  have "CompoFactory registered (factory_type f) = Some f"
    using assms(1,2)
    by (simp add: CompoFactory_def registerFactories_append registerFactories_later)
  then show ?thesis
    using assms(3) by (simp add: component_def Let_def)
qed

theorem component_dispatch_witness:
  "type' (props_data example_props) = factory_type text_factory2
   \<and> factory_type link_factory \<noteq> factory_type text_factory2
   \<and> component (CompoFactory [text_factory, text_factory2, link_factory]) example_props
       = Some ''text hello methods''"
proof -
  have split: "[text_factory, text_factory2, link_factory] = [text_factory] @ text_factory2 # [link_factory]"
    by simp
  have later: "\<forall>g \<in> set [link_factory]. factory_type g \<noteq> factory_type text_factory2"
    by (simp add: link_factory_def text_factory2_def)
  have tag: "type' (props_data example_props) = factory_type text_factory2"
    by (simp add: example_props_def text_factory2_def)
  from component_dispatch [OF split later tag] later tag
  show ?thesis by (simp add: example_props_def text_factory2_def)
qed

end
